theory Spec2Isabelle
  imports Complex_Main
begin

section \<open>xbox\_one\_controller.py: the XboxController class\<close>

text \<open>
  Python exceptions are values. Every exception the modelled code can meet comes from a
  collaborator outside the repository (the gamepad driver, the drone SDK, Tk), so one
  constructor carrying the exception's message is enough.
\<close>

datatype error = Exception string

text \<open>
  The two class constants are \<^verbatim>\<open>math.pow(2, 8)\<close> and \<^verbatim>\<open>math.pow(2, 15)\<close>, both floats.
  They are modelled as rationals.
\<close>

definition MAX_TRIG_VAL :: rat where
  "MAX_TRIG_VAL = 2 ^ 8"

definition MAX_JOY_VAL :: rat where
  "MAX_JOY_VAL = 2 ^ 15"

text \<open>
  Python's \<^verbatim>\<open>int(x)\<close> on a float drops the fractional part: it is the floor of a
  non-negative number and the ceiling of a negative one.
\<close>

definition py_int :: "rat \<Rightarrow> int" where
  "py_int q = (if 0 \<le> q then \<lfloor>q\<rfloor> else \<lceil>q\<rceil>)"

text \<open>
  \<^verbatim>\<open>_normalize(value)\<close> is \<^verbatim>\<open>int((value / XboxController.MAX_JOY_VAL) * 100)\<close>.
  The division is by a power of two and the product \<open>value * 100 / 2 ^ 15\<close> is a dyadic
  rational whose numerator stays far below \<open>2 ^ 53\<close> for every reading a 16-bit axis can
  deliver, so the double-precision computation is exact there and the rational
  arithmetic below computes the same number.
\<close>

definition normalize_val :: "int \<Rightarrow> int" where
  "normalize_val v = py_int ((of_int v / MAX_JOY_VAL) * 100)"

definition filter_noise :: "int \<Rightarrow> int" where
  "filter_noise v = (if \<bar>v\<bar> \<le> 15 then 0 else v)"

text \<open>
  The instance attributes set by \<^verbatim>\<open>__init__\<close>, in its order. The monitor thread is the
  only writer; \<^verbatim>\<open>read\<close> is the only reader.
\<close>

record XboxController =
  LeftJoystickY :: int
  LeftJoystickX :: int
  RightJoystickY :: int
  RightJoystickX :: int
  LeftTrigger :: int
  RightTrigger :: int
  LeftBumper :: int
  RightBumper :: int
  A :: int
  X :: int
  Y :: int
  B :: int
  LeftThumb :: int
  RightThumb :: int
  Back :: int
  Start :: int
  LeftDPad :: int
  RightDPad :: int
  UpDPad :: int
  DownDPad :: int

definition XboxController_init :: XboxController where
  "XboxController_init =
     \<lparr>LeftJoystickY = 0, LeftJoystickX = 0, RightJoystickY = 0, RightJoystickX = 0,
      LeftTrigger = 0, RightTrigger = 0, LeftBumper = 0, RightBumper = 0,
      A = 0, X = 0, Y = 0, B = 0, LeftThumb = 0, RightThumb = 0, Back = 0, Start = 0,
      LeftDPad = 0, RightDPad = 0, UpDPad = 0, DownDPad = 0\<rparr>"

definition read :: "XboxController \<Rightarrow> int list" where
  "read c =
     [LeftJoystickX c, LeftJoystickY c, RightJoystickX c, RightJoystickY c,
      LeftTrigger c, RightTrigger c, LeftBumper c, RightBumper c,
      A c, X c, Y c, B c, LeftThumb c, RightThumb c, Back c, Start c,
      LeftDPad c, RightDPad c, UpDPad c, DownDPad c]"

text \<open>One event of the \<^verbatim>\<open>inputs\<close> library: its code and its integer state.\<close>

record event =
  code :: string
  state :: int

text \<open>
  The body of the \<^verbatim>\<open>for event in events\<close> loop of \<^verbatim>\<open>_monitor_controller\<close>: the
  \<^verbatim>\<open>if\<close>/\<^verbatim>\<open>elif\<close> chain in the source's order, the second \<^verbatim>\<open>BTN_START\<close> branch
  included. An event with any other code changes nothing.
\<close>

definition handle_event :: "event \<Rightarrow> XboxController \<Rightarrow> XboxController" where
  "handle_event e c =
     (if code e = ''ABS_Y'' then c\<lparr>LeftJoystickY := filter_noise (normalize_val (state e))\<rparr>
      else if code e = ''ABS_X'' then c\<lparr>LeftJoystickX := filter_noise (normalize_val (state e))\<rparr>
      else if code e = ''ABS_RY'' then c\<lparr>RightJoystickY := filter_noise (normalize_val (state e))\<rparr>
      else if code e = ''ABS_RX'' then c\<lparr>RightJoystickX := filter_noise (normalize_val (state e))\<rparr>
      else if code e = ''ABS_Z'' then c\<lparr>LeftTrigger := filter_noise (normalize_val (state e))\<rparr>
      else if code e = ''ABS_RZ'' then c\<lparr>RightTrigger := filter_noise (normalize_val (state e))\<rparr>
      else if code e = ''BTN_START'' then c\<lparr>Start := state e\<rparr>
      else if code e = ''BTN_TL'' then c\<lparr>LeftBumper := state e\<rparr>
      else if code e = ''BTN_TR'' then c\<lparr>RightBumper := state e\<rparr>
      else if code e = ''BTN_SOUTH'' then c\<lparr>A := state e\<rparr>
      else if code e = ''BTN_NORTH'' then c\<lparr>Y := state e\<rparr>
      else if code e = ''BTN_WEST'' then c\<lparr>X := state e\<rparr>
      else if code e = ''BTN_EAST'' then c\<lparr>B := state e\<rparr>
      else if code e = ''BTN_THUMBL'' then c\<lparr>LeftThumb := state e\<rparr>
      else if code e = ''BTN_THUMBR'' then c\<lparr>RightThumb := state e\<rparr>
      else if code e = ''BTN_SELECT'' then c\<lparr>Back := state e\<rparr>
      else if code e = ''BTN_START'' then c\<lparr>Start := state e\<rparr>
      else if code e = ''BTN_TRIGGER_HAPPY1'' then c\<lparr>LeftDPad := state e\<rparr>
      else if code e = ''BTN_TRIGGER_HAPPY2'' then c\<lparr>RightDPad := state e\<rparr>
      else if code e = ''BTN_TRIGGER_HAPPY3'' then c\<lparr>UpDPad := state e\<rparr>
      else if code e = ''BTN_TRIGGER_HAPPY4'' then c\<lparr>DownDPad := state e\<rparr>
      else c)"

text \<open>
  \<^verbatim>\<open>_monitor_controller\<close> loops for ever over the batches \<^verbatim>\<open>get_gamepad()\<close> returns.
  The batches are the environment's: the model runs the loop over a finite prefix of
  them. Nothing in the loop catches an exception, so a \<^verbatim>\<open>get_gamepad()\<close> that raises
  ends the thread and the attributes keep their last values.
\<close>

fun monitor_controller :: "(error + event list) list \<Rightarrow> XboxController \<Rightarrow> XboxController" where
  "monitor_controller [] c = c"
| "monitor_controller (Inl err # batches) c = c"
| "monitor_controller (Inr events # batches) c =
     monitor_controller batches (fold handle_event events c)"


section \<open>What the program does to its collaborators\<close>

text \<open>
  The drone SDK, Tk and the standard library are outside the repository. A call into
  them is recorded as an effect, in program order, and what the call returns or raises
  is a parameter of the function that makes it.
\<close>

datatype callback = Update_joystick | Video_stream

type_synonym point = "int \<times> int"
type_synonym colour = "int \<times> int \<times> int"

datatype font = FONT_HERSHEY_COMPLEX

datatype draw =
    Rectangle point point colour int
  | Line point point colour int
  | PutText string point font rat colour int

datatype effect =
    Thread_land
  | Thread_takeoff
  | Sleep rat
  | Send_rc_control int int int int
  | After nat callback
  | Print string
  | Get_battery
  | Draw "draw list"
  | Drone_end
  | Root_quit
  | Exit
  | Pack
  | Mainloop

text \<open>Python's \<^verbatim>\<open>str\<close> of an integer, for the f-strings that print the battery level.\<close>

fun str_nat :: "nat \<Rightarrow> string" where
  "str_nat n =
     (if n < 10 then [''0123456789'' ! n]
      else str_nat (n div 10) @ [''0123456789'' ! (n mod 10)])"

definition str_int :: "int \<Rightarrow> string" where
  "str_int k = (if k < 0 then ''-'' @ str_nat (nat (- k)) else str_nat (nat k))"

section \<open>indicators.py: the Indicators class\<close>

record Indicators =
  update :: bool
  w :: int
  h :: int
  battery :: int

text \<open>
  \<^verbatim>\<open>__init__\<close> reads the battery once, outside any \<^verbatim>\<open>try\<close>: a read that raises
  leaves no object. The thread it then starts runs \<^verbatim>\<open>update_indicators\<close>.
\<close>

definition Indicators_init :: "error + int \<Rightarrow> int \<Rightarrow> int \<Rightarrow> error + Indicators" where
  "Indicators_init get_battery w0 h0 =
     (case get_battery of
        Inl err \<Rightarrow> Inl err
      | Inr b \<Rightarrow> Inr \<lparr>update = False, w = w0, h = h0, battery = b\<rparr>)"

text \<open>
  How far the polling thread got: still inside its loop when the environment's prefix
  ends, left the loop because \<^verbatim>\<open>update\<close> was found false, or ended by an exception
  that nothing caught.
\<close>

datatype thread_status = Looping | Finished | Died error

text \<open>
  The \<^verbatim>\<open>while self.update\<close> loop. Each element of the list is one iteration's
  environment: what \<^verbatim>\<open>drone.get_battery()\<close> does, and whether \<^verbatim>\<open>cleanup\<close> clears
  \<^verbatim>\<open>update\<close> from the main thread while the iteration sleeps. The loop has no
  \<^verbatim>\<open>try\<close>: a read that raises leaves \<^verbatim>\<open>battery\<close> unassigned and ends the thread.
\<close>

fun while_update :: "((error + int) \<times> bool) list \<Rightarrow> Indicators \<Rightarrow> effect list \<times> Indicators \<times> thread_status" where
  "while_update [] i = ([], i, if update i then Looping else Finished)"
| "while_update ((get_battery, stop) # polls) i =
     (if \<not> update i then ([], i, Finished)
      else case get_battery of
        Inl err \<Rightarrow>
          ([Print ''self.drone is true, updating indicators'', Get_battery], i, Died err)
      | Inr b \<Rightarrow>
          (let i1 = i\<lparr>battery := b\<rparr>;
               i2 = (if stop then i1\<lparr>update := False\<rparr> else i1);
               (fx, i3, st) = while_update polls i2
           in ([Print ''self.drone is true, updating indicators'', Get_battery,
                Print (''self.battery = '' @ str_int b), Sleep 1] @ fx, i3, st)))"

definition update_indicators :: "((error + int) \<times> bool) list \<Rightarrow> Indicators \<Rightarrow> effect list \<times> Indicators \<times> thread_status" where
  "update_indicators polls i = while_update polls (i\<lparr>update := True\<rparr>)"

text \<open>One bar of the gauge: the vertical line at horizontal offset \<open>x\<close>, thickness 2.\<close>

definition bar :: "Indicators \<Rightarrow> colour \<Rightarrow> int \<Rightarrow> draw" where
  "bar i color x =
     Line (w i div 128 + x, h i div 32 + 30) (w i div 128 + x, h i div 32 + 50) color 2"

text \<open>
  \<^verbatim>\<open>draw_battery_indicator\<close> draws on the frame; the model returns the drawing calls
  in order. Each branch of the source is a run of \<^verbatim>\<open>cv2.line\<close> calls at offsets
  5, 10, 15, ...; the list of offsets of each branch is written out.
\<close>

definition draw_battery_indicator :: "Indicators \<Rightarrow> draw list" where
  "draw_battery_indicator i =
     [Rectangle (w i div 128 + 3, h i div 32 + 29) (w i div 128 + 52, h i div 32 + 51)
        (255, 255, 255) (- 1),
      Rectangle (w i div 128 + 52, h i div 32 + 35) (w i div 128 + 55, h i div 32 + 45)
        (255, 255, 255) (- 1)]
     @ (if battery i \<ge> 70 then
          (let color = (0, 255, 0) in
           if battery i = 100 then map (bar i color) [5, 10, 15, 20, 25, 30, 35, 40, 45, 50]
           else if 90 \<le> battery i \<and> battery i < 100 then
             map (bar i color) [5, 10, 15, 20, 25, 30, 35, 40, 45]
           else if 80 \<le> battery i \<and> battery i < 90 then
             map (bar i color) [5, 10, 15, 20, 25, 30, 35, 40]
           else map (bar i color) [5, 10, 15, 20, 25, 30, 35])
        else if 40 \<le> battery i \<and> battery i < 70 then
          (let color = (0, 255, 255) in
           if battery i \<ge> 60 then map (bar i color) [5, 10, 15, 20, 25, 30]
           else if 50 \<le> battery i \<and> battery i < 60 then map (bar i color) [5, 10, 15, 20, 25]
           else map (bar i color) [5, 10, 15, 20])
        else
          (let color = (0, 0, 255) in
           if battery i \<ge> 30 then map (bar i color) [5, 10, 15]
           else if 20 \<le> battery i \<and> battery i < 30 then map (bar i color) [5, 10]
           else map (bar i color) [5]))
     @ [PutText (str_int (battery i) @ '' %'') (w i div 128 + 60, h i div 32 + 45)
          FONT_HERSHEY_COMPLEX (1 / 2) (43, 157, 255) 1]"

text \<open>The three bar colours of the source, which OpenCV reads as (blue, green, red).\<close>

definition green :: colour where
  "green = (0, 255, 0)"

definition yellow :: colour where
  "yellow = (0, 255, 255)"

definition red :: colour where
  "red = (0, 0, 255)"

text \<open>The colours of the bars drawn, in drawing order: one entry for each segment.\<close>

fun line_colours :: "draw list \<Rightarrow> colour list" where
  "line_colours [] = []"
| "line_colours (Line p q c t # ds) = c # line_colours ds"
| "line_colours (d # ds) = line_colours ds"


section \<open>app.py: the App class\<close>

text \<open>
  The attributes of \<^verbatim>\<open>App\<close> that the dispatch tick can read or write. The controller
  and the indicators are objects of their own, shared with their threads, and are passed
  beside it.
\<close>

record App =
  flying :: bool
  rc_controls :: "int list"

definition App_init :: App where
  "App_init = \<lparr>flying = False, rc_controls = [0, 0, 0, 0]\<rparr>"

text \<open>
  What the drone does during one tick: the value of \<^verbatim>\<open>drone.is_flying\<close> that
  \<^verbatim>\<open>takeoff_land\<close> reads, and whether \<^verbatim>\<open>drone.send_rc_control\<close> returns or raises.
\<close>

record tick_env =
  is_flying :: bool
  send_result :: "error option"

text \<open>
  \<^verbatim>\<open>takeoff_land\<close> starts a thread that lands or takes off. The thread's own failure
  stays in the thread. The method reads \<^verbatim>\<open>drone.is_flying\<close>, never \<^verbatim>\<open>self.flying\<close>.
\<close>

definition takeoff_land :: "tick_env \<Rightarrow> effect list" where
  "takeoff_land env = (if is_flying env then [Thread_land] else [Thread_takeoff])"

text \<open>
  Index assignments \<^verbatim>\<open>xs[i] = v\<close> in sequence. Python raises IndexError at the first
  index out of range; the assignments before it have happened.
\<close>

fun setitems :: "int list \<Rightarrow> (nat \<times> int) list \<Rightarrow> int list \<times> error option" where
  "setitems xs [] = (xs, None)"
| "setitems xs ((k, v) # rest) =
     (if k < length xs then setitems (xs[k := v]) rest
      else (xs, Some (Exception ''list assignment index out of range'')))"

definition joystick_message :: "string \<Rightarrow> string" where
  "joystick_message m =
     ''Exception occurred when updating joystick values.'' @ [CHR 0x0A]
     @ ''JoystickUpdateException: '' @ m"

text \<open>
  One call of \<^verbatim>\<open>update_joystick\<close>: the effects in order and the \<^verbatim>\<open>App\<close> afterwards.
  \<^verbatim>\<open>read()\<close> returns a list of 20 elements, so the five index reads cannot raise.
  The call \<^verbatim>\<open>root.after(50, self.update_joystick)\<close> is the last statement inside the
  \<^verbatim>\<open>try\<close>; the handler only prints.
\<close>

definition update_joystick :: "tick_env \<Rightarrow> XboxController \<Rightarrow> App \<Rightarrow> effect list \<times> App" where
  "update_joystick env c a =
     (let joystick_values = read c;
          left_joystick_x = joystick_values ! 0;
          left_joystick_y = joystick_values ! 1;
          right_joystick_x = joystick_values ! 2;
          right_joystick_y = joystick_values ! 3;
          start_button = joystick_values ! 14;
          pressed = (if start_button \<noteq> 0 then takeoff_land env @ [Sleep (15 / 100)] else []);
          (rc, raised) = setitems (rc_controls a)
             [(0, right_joystick_x), (1, right_joystick_y), (2, left_joystick_y), (3, left_joystick_x)];
          a1 = a\<lparr>rc_controls := rc\<rparr>
      in case raised of
           Some (Exception m) \<Rightarrow> (pressed @ [Print (joystick_message m)], a1)
         | None \<Rightarrow>
             (let send = (if rc \<noteq> [0, 0, 0, 0]
                          then Send_rc_control (rc ! 0) (rc ! 1) (rc ! 2) (rc ! 3)
                          else Send_rc_control 0 0 0 0)
              in case send_result env of
                   Some (Exception m) \<Rightarrow> (pressed @ [send, Print (joystick_message m)], a1)
                 | None \<Rightarrow> (pressed @ [send, After 50 Update_joystick], a1)))"

text \<open>
  One call of \<^verbatim>\<open>video_stream\<close>. Reading and resizing the frame come before the
  indicator is drawn, the conversions and the label update after it; either may raise,
  and the handler only prints. The rescheduling is inside the \<^verbatim>\<open>try\<close>.
\<close>

definition video_message :: "string \<Rightarrow> string" where
  "video_message m =
     ''Exception occurred when updating the video stream.'' @ [CHR 0x0A]
     @ ''videoStreamException: '' @ m"

definition video_stream :: "error option \<Rightarrow> error option \<Rightarrow> Indicators \<Rightarrow> effect list" where
  "video_stream frame_result display_result i =
     (case frame_result of
        Some (Exception m) \<Rightarrow> [Print (video_message m)]
      | None \<Rightarrow>
          (case display_result of
             Some (Exception m) \<Rightarrow> [Draw (draw_battery_indicator i), Print (video_message m)]
           | None \<Rightarrow> [Draw (draw_battery_indicator i), After 5 Video_stream]))"

text \<open>
  \<^verbatim>\<open>cleanup\<close>. \<^verbatim>\<open>drone.end()\<close> and \<^verbatim>\<open>root.quit()\<close> may raise; \<^verbatim>\<open>exit()\<close> raises
  SystemExit, which \<^verbatim>\<open>except Exception\<close> does not catch. The result says how the
  method was left.
\<close>

record cleanup_env =
  end_result :: "error option"
  quit_result :: "error option"

datatype outcome = Returned | SystemExit

definition cleanup :: "cleanup_env \<Rightarrow> Indicators \<Rightarrow> effect list \<times> Indicators \<times> outcome" where
  "cleanup env i =
     (let i1 = i\<lparr>update := False\<rparr>
      in case end_result env of
           Some (Exception m) \<Rightarrow>
             ([Print ''Cleaning up resources...'', Drone_end,
               Print (''Error performing cleanup: '' @ m)], i1, Returned)
         | None \<Rightarrow>
             (case quit_result env of
                Some (Exception m) \<Rightarrow>
                  ([Print ''Cleaning up resources...'', Drone_end, Root_quit,
                    Print (''Error performing cleanup: '' @ m)], i1, Returned)
              | None \<Rightarrow>
                  ([Print ''Cleaning up resources...'', Drone_end, Root_quit, Exit],
                   i1, SystemExit)))"

text \<open>
  \<^verbatim>\<open>run_app\<close>, which the script calls as its last statement. \<^verbatim>\<open>Pack\<close> is
  \<^verbatim>\<open>cap_lbl.pack\<close>; \<^verbatim>\<open>Mainloop\<close> is \<^verbatim>\<open>root.mainloop()\<close> from its entry to its end,
  by return or by an exception, with the callbacks it runs in between (the ticks and
  frames modelled above, which catch their own exceptions). The first frame and the
  first tick are called directly. The \<^verbatim>\<open>except\<close> clause prints, and the \<^verbatim>\<open>finally\<close>
  clause is the only call of \<^verbatim>\<open>cleanup\<close> in the program. The result says how the main
  thread leaves \<^verbatim>\<open>run_app\<close>: by returning, after which the script has nothing left to
  run, or by the SystemExit of \<^verbatim>\<open>exit()\<close>. The polling thread writes \<^verbatim>\<open>battery\<close>
  meanwhile; \<^verbatim>\<open>cleanup\<close> neither reads nor writes it.
\<close>

record app_env =
  pack_result :: "error option"
  first_frame :: "error option"
  first_display :: "error option"
  first_tick :: tick_env
  mainloop_result :: "error option"
  teardown :: cleanup_env

definition run_app :: "app_env \<Rightarrow> XboxController \<Rightarrow> App \<Rightarrow> Indicators \<Rightarrow> effect list \<times> Indicators \<times> outcome" where
  "run_app env c a i =
     (let (body, raised) =
            (case pack_result env of
               Some (Exception m) \<Rightarrow> ([Pack], Some (Exception m))
             | None \<Rightarrow>
                 ([Pack] @ video_stream (first_frame env) (first_display env) i
                  @ fst (update_joystick (first_tick env) c a) @ [Mainloop],
                  mainloop_result env));
          handler = (case raised of
                       Some (Exception m) \<Rightarrow> [Print (''Error running the application: '' @ m)]
                     | None \<Rightarrow> []);
          (fx, i1, out) = cleanup (teardown env) i
      in (body @ handler @ fx, i1, out))"

text \<open>
  The effects of \<^verbatim>\<open>run_app\<close> up to its \<^verbatim>\<open>finally\<close> clause: the \<^verbatim>\<open>try\<close> body and,
  when it raised, the handler's print.
\<close>

definition before_cleanup :: "app_env \<Rightarrow> XboxController \<Rightarrow> App \<Rightarrow> Indicators \<Rightarrow> effect list" where
  "before_cleanup env c a i =
     (case pack_result env of
        Some (Exception m) \<Rightarrow> [Pack, Print (''Error running the application: '' @ m)]
      | None \<Rightarrow>
          [Pack] @ video_stream (first_frame env) (first_display env) i
          @ fst (update_joystick (first_tick env) c a) @ [Mainloop]
          @ (case mainloop_result env of
               Some (Exception m) \<Rightarrow> [Print (''Error running the application: '' @ m)]
             | None \<Rightarrow> []))"

section \<open>The monitor thread and the dispatch loop together\<close>

text \<open>
  The monitor thread writes the controller while the Tk loop runs the dispatch callback.
  A run is a sequence of actions: the monitor thread receives one result of
  \<^verbatim>\<open>get_gamepad()\<close>, or the time of the dispatch callback has come. The callback runs
  only while it is scheduled: \<^verbatim>\<open>run_app\<close> calls it once and every later call comes
  from its own \<^verbatim>\<open>root.after\<close>. A tick between two events of one batch is the run in
  which the batch is given as two.
\<close>

record system =
  controller :: XboxController
  monitor_alive :: bool
  app :: App
  scheduled :: bool

definition system_init :: system where
  "system_init =
     \<lparr>controller = XboxController_init, monitor_alive = True, app = App_init,
      scheduled = True\<rparr>"

datatype action = Gamepad "error + event list" | Tick tick_env

fun step :: "action \<Rightarrow> system \<Rightarrow> effect list \<times> system" where
  "step (Gamepad (Inl err)) s = ([], s\<lparr>monitor_alive := False\<rparr>)"
| "step (Gamepad (Inr events)) s =
     ([], if monitor_alive s then s\<lparr>controller := fold handle_event events (controller s)\<rparr>
          else s)"
| "step (Tick env) s =
     (if scheduled s then
        (let (fx, a1) = update_joystick env (controller s) (app s)
         in (fx, s\<lparr>app := a1, scheduled := (After 50 Update_joystick \<in> set fx)\<rparr>))
      else ([], s))"

fun run :: "action list \<Rightarrow> system \<Rightarrow> effect list \<times> system" where
  "run [] s = ([], s)"
| "run (x # xs) s =
     (let (fx, s1) = step x s; (fx2, s2) = run xs s1 in (fx @ fx2, s2))"

text \<open>The velocity commands in a trace, and the takeoff and landing dispatches in it.\<close>

fun sent :: "effect list \<Rightarrow> (int \<times> int \<times> int \<times> int) list" where
  "sent [] = []"
| "sent (Send_rc_control lr fb ud yv # fx) = (lr, fb, ud, yv) # sent fx"
| "sent (x # fx) = sent fx"

fun dispatches :: "effect list \<Rightarrow> effect list" where
  "dispatches [] = []"
| "dispatches (Thread_takeoff # fx) = Thread_takeoff # dispatches fx"
| "dispatches (Thread_land # fx) = Thread_land # dispatches fx"
| "dispatches (x # fx) = dispatches fx"

definition within_100 :: "int \<times> int \<times> int \<times> int \<Rightarrow> bool" where
  "within_100 cmd =
     (case cmd of (lr, fb, ud, yv) \<Rightarrow>
        - 100 \<le> lr \<and> lr \<le> 100 \<and> - 100 \<le> fb \<and> fb \<le> 100 \<and>
        - 100 \<le> ud \<and> ud \<le> 100 \<and> - 100 \<le> yv \<and> yv \<le> 100)"

text \<open>The codes of the four joystick axes, whose values the tick sends.\<close>

definition joystick_axis :: "string \<Rightarrow> bool" where
  "joystick_axis cd = (cd = ''ABS_Y'' \<or> cd = ''ABS_X'' \<or> cd = ''ABS_RY'' \<or> cd = ''ABS_RX'')"

text \<open>
  Every joystick reading in a run lies in \<open>[- 2 ^ 15, 2 ^ 15]\<close>. Button and trigger
  events are not restricted.
\<close>

definition event_ok :: "event \<Rightarrow> bool" where
  "event_ok e =
     (if joystick_axis (code e) then - (2 ^ 15) \<le> state e \<and> state e \<le> 2 ^ 15 else True)"

fun action_ok :: "action \<Rightarrow> bool" where
  "action_ok (Gamepad (Inr events)) = list_all event_ok events"
| "action_ok x = True"

text \<open>The invariant of the monitor thread: the four stored joystick values are in range.\<close>

definition axes_ok :: "XboxController \<Rightarrow> bool" where
  "axes_ok c =
     (within_100 (RightJoystickX c, RightJoystickY c, LeftJoystickY c, LeftJoystickX c))"

section \<open>Normalisation and the dead zone\<close>

text \<open>
  The scaled value is a fraction of two integers, so Python's truncation is an integer
  division of the magnitude.
\<close>

lemma scaled_eq: "(of_int v / MAX_JOY_VAL) * 100 = (of_int (v * 100) / of_int 32768 :: rat)"
  by (simp add: MAX_JOY_VAL_def)

lemma normalize_val_nonneg: "0 \<le> v \<Longrightarrow> normalize_val v = (v * 100) div 32768"
  unfolding normalize_val_def py_int_def scaled_eq
  by (simp only: floor_divide_of_int_eq) (simp add: zero_le_divide_iff)

lemma normalize_val_neg: "v < 0 \<Longrightarrow> normalize_val v = - ((- v * 100) div 32768)"
proof -
  assume v: "v < 0"
  have "(of_int (v * 100) / of_int 32768 :: rat) = - (of_int (- v * 100) / of_int 32768)"
    by simp
  then have "\<lceil>(of_int (v * 100) / of_int 32768 :: rat)\<rceil> = - \<lfloor>(of_int (- v * 100) / of_int 32768 :: rat)\<rfloor>"
    by (simp only: ceiling_def) simp
  also have "\<dots> = - ((- v * 100) div 32768)"
    by (simp only: floor_divide_of_int_eq)
  finally have c: "\<lceil>(of_int (v * 100) / of_int 32768 :: rat)\<rceil> = - ((- v * 100) div 32768)" .
  have "\<not> 0 \<le> (of_int (v * 100) / of_int 32768 :: rat)"
    using v by (simp add: zero_le_divide_iff)
  then show ?thesis
    unfolding normalize_val_def py_int_def scaled_eq using c by simp
qed

lemma normalize_val_mono:
  assumes "a \<le> b"
  shows "normalize_val a \<le> normalize_val b"
proof -
  consider "0 \<le> a" | "a < 0" "0 \<le> b" | "b < 0" using assms by linarith
  then show ?thesis
  proof cases
    case 1
    then have "0 \<le> b" using assms by simp
    with 1 assms show ?thesis
      by (simp add: normalize_val_nonneg zdiv_mono1)
  next
    case 2
    have "0 \<le> (- a * 100) div 32768" using 2 by (simp add: pos_imp_zdiv_nonneg_iff)
    moreover have "0 \<le> (b * 100) div 32768" using 2 by (simp add: pos_imp_zdiv_nonneg_iff)
    ultimately show ?thesis using 2
      by (simp add: normalize_val_nonneg normalize_val_neg)
  next
    case 3
    then have "a < 0" using assms by simp
    moreover have "(- b * 100) div 32768 \<le> (- a * 100) div 32768"
      using assms by (intro zdiv_mono1) simp_all
    ultimately show ?thesis using 3
      by (simp add: normalize_val_neg)
  qed
qed

lemma normalize_val_max: "normalize_val 32768 = 100"
  by (simp add: normalize_val_nonneg)

lemma normalize_val_min: "normalize_val (- 32768) = - 100"
  by (simp add: normalize_val_neg)

lemma normalize_val_bounds:
  assumes "- 32768 \<le> r" "r \<le> 32768"
  shows "- 100 \<le> normalize_val r \<and> normalize_val r \<le> 100"
  using normalize_val_mono [OF assms(1)] normalize_val_mono [OF assms(2)]
  by (simp add: normalize_val_max normalize_val_min)

lemma filter_noise_bounds:
  "- 100 \<le> v \<Longrightarrow> v \<le> 100 \<Longrightarrow> - 100 \<le> filter_noise v \<and> filter_noise v \<le> 100"
  by (simp add: filter_noise_def)

text \<open>
  Claim C7. For raw readings between \<open>- 2 ^ 15\<close> and \<open>2 ^ 15\<close>, \<^verbatim>\<open>_normalize\<close> is
  monotonic, maps \<open>2 ^ 15\<close> to 100, \<open>- 2 ^ 15\<close> to \<open>- 100\<close> and 0 to 0, and
  rounds the scaled value toward zero: the result has the sign of the reading and the
  magnitude \<open>\<lfloor>\<bar>r\<bar> * 100 / 2 ^ 15\<rfloor>\<close>.
\<close>

theorem normalize_monotone_endpoints:
  assumes "- (2 ^ 15) \<le> r1" and "r1 \<le> r2" and "r2 \<le> 2 ^ 15"
  shows "normalize_val r1 \<le> normalize_val r2
    \<and> normalize_val (2 ^ 15) = 100 \<and> normalize_val (- (2 ^ 15)) = - 100 \<and> normalize_val 0 = 0
    \<and> normalize_val r1 = sgn r1 * ((\<bar>r1\<bar> * 100) div 2 ^ 15)
    \<and> normalize_val r2 = sgn r2 * ((\<bar>r2\<bar> * 100) div 2 ^ 15)"
proof -
  have trunc: "normalize_val v = sgn v * ((\<bar>v\<bar> * 100) div 2 ^ 15)" for v
    by (cases "0 \<le> v") (auto simp: normalize_val_nonneg normalize_val_neg sgn_if)
  show ?thesis
    using normalize_val_mono [OF assms(2)] trunc [of r1] trunc [of r2]
    by (simp add: normalize_val_nonneg normalize_val_neg)
qed

theorem normalize_monotone_endpoints_witness:
  "- (2 ^ 15) \<le> (- 16385 :: int) \<and> (- 16385 :: int) \<le> 16384 \<and> (16384 :: int) \<le> 2 ^ 15
   \<and> normalize_val (- 16385) = - 50 \<and> normalize_val 16384 = 50
   \<and> normalize_val (- 16385) \<le> normalize_val 16384"
  using normalize_monotone_endpoints [of "- 16385" 16384] by simp


section \<open>One dispatch tick\<close>

text \<open>
  A stored joystick value is \<^verbatim>\<open>_filter_noise(_normalize(raw))\<close>, and every event keeps
  the four of them in range.
\<close>

lemma stored_axis_bounds:
  "- 32768 \<le> r \<Longrightarrow> r \<le> 32768 \<Longrightarrow>
   - 100 \<le> filter_noise (normalize_val r) \<and> filter_noise (normalize_val r) \<le> 100"
  using normalize_val_bounds [of r] filter_noise_bounds [of "normalize_val r"] by simp

lemma handle_event_axes_ok:
  assumes "event_ok e" and "axes_ok c"
  shows "axes_ok (handle_event e c)"
proof (cases "joystick_axis (code e)")
  case True
  then have "- 32768 \<le> state e \<and> state e \<le> 32768" using assms(1) by (simp add: event_ok_def)
  then have b: "- 100 \<le> filter_noise (normalize_val (state e))
      \<and> filter_noise (normalize_val (state e)) \<le> 100"
    using stored_axis_bounds by simp
  from True b assms(2) show ?thesis
    by (auto simp: joystick_axis_def handle_event_def axes_ok_def within_100_def)
next
  case False
  then show ?thesis using assms(2)
    by (simp add: joystick_axis_def handle_event_def axes_ok_def within_100_def)
qed

lemma fold_handle_event_axes_ok:
  "list_all event_ok events \<Longrightarrow> axes_ok c \<Longrightarrow> axes_ok (fold handle_event events c)"
  by (induction events arbitrary: c) (simp_all add: handle_event_axes_ok)

lemma setitems_four:
  "setitems xs [(0, p), (1, q), (2, r), (3, t)] =
     (if 4 \<le> length xs then (xs[0 := p, 1 := q, 2 := r, 3 := t], None)
      else (if length xs = 0 then xs else if length xs = 1 then xs[0 := p]
            else if length xs = 2 then xs[0 := p, 1 := q] else xs[0 := p, 1 := q, 2 := r],
            Some (Exception ''list assignment index out of range'')))"
  by (cases xs; cases "tl xs"; cases "tl (tl xs)"; cases "tl (tl (tl xs))") auto

lemma read_axes:
  "read c ! 0 = LeftJoystickX c" "read c ! 1 = LeftJoystickY c"
  "read c ! 2 = RightJoystickX c" "read c ! 3 = RightJoystickY c"
  "read c ! 14 = Back c"
  by (simp_all add: read_def)

lemma sent_append: "sent (xs @ ys) = sent xs @ sent ys"
  by (induction xs rule: sent.induct) simp_all

lemma rc_nth:
  assumes "4 \<le> length xs"
  shows "xs[0 := p, 1 := q, 2 := r, 3 := t] ! 0 = p" "xs[0 := p, 1 := q, 2 := r, 3 := t] ! 1 = q"
    "xs[0 := p, 1 := q, 2 := r, 3 := t] ! 2 = r" "xs[0 := p, 1 := q, 2 := r, 3 := t] ! 3 = t"
proof -
  obtain x0 x1 x2 x3 rest where "xs = x0 # x1 # x2 # x3 # rest"
    using assms by (cases xs; cases "tl xs"; cases "tl (tl xs)"; cases "tl (tl (tl xs))") auto
  then show "xs[0 := p, 1 := q, 2 := r, 3 := t] ! 0 = p" "xs[0 := p, 1 := q, 2 := r, 3 := t] ! 1 = q"
    "xs[0 := p, 1 := q, 2 := r, 3 := t] ! 2 = r" "xs[0 := p, 1 := q, 2 := r, 3 := t] ! 3 = t"
    by (simp_all add: numeral_3_eq_3 numeral_2_eq_2)
qed

lemma rc_zero:
  assumes "4 \<le> length xs" and "xs[0 := p, 1 := q, 2 := r, 3 := t] = [0, 0, 0, 0 :: int]"
  shows "p = 0 \<and> q = 0 \<and> r = 0 \<and> t = 0"
proof -
  let ?rc = "xs[0 := p, 1 := q, 2 := r, 3 := t]"
  have "?rc ! 0 = 0" "?rc ! 1 = 0" "?rc ! 2 = 0" "?rc ! 3 = 0"
    by (simp_all only: assms(2)) simp_all
  then show ?thesis
    by (simp only: rc_nth [OF assms(1)]) 
qed

lemma command_updated:
  assumes "4 \<le> length xs"
  shows "(if xs[0 := p, 1 := q, 2 := r, 3 := t] \<noteq> [0, 0, 0, 0]
          then Send_rc_control (xs[0 := p, 1 := q, 2 := r, 3 := t] ! 0)
                 (xs[0 := p, 1 := q, 2 := r, 3 := t] ! 1)
                 (xs[0 := p, 1 := q, 2 := r, 3 := t] ! 2)
                 (xs[0 := p, 1 := q, 2 := r, 3 := t] ! 3)
          else Send_rc_control 0 0 0 0) = Send_rc_control p q r t"
proof (cases "xs[0 := p, 1 := q, 2 := r, 3 := t] = [0, 0, 0, 0]")
  case True
  with rc_zero [OF assms True] show ?thesis by simp
next
  case False
  then show ?thesis by (simp only: rc_nth [OF assms]) simp
qed

lemma update_joystick_effects:
  "fst (update_joystick env c a) =
     (if Back c \<noteq> 0 then takeoff_land env @ [Sleep (15 / 100)] else [])
     @ (if 4 \<le> length (rc_controls a) then
          [Send_rc_control (RightJoystickX c) (RightJoystickY c) (LeftJoystickY c) (LeftJoystickX c),
           case send_result env of
             None \<Rightarrow> After 50 Update_joystick
           | Some (Exception m) \<Rightarrow> Print (joystick_message m)]
        else [Print (joystick_message ''list assignment index out of range'')])"
proof (cases "4 \<le> length (rc_controls a)")
  case True
  show ?thesis
    unfolding update_joystick_def Let_def read_axes setitems_four
    using True
    by (simp only: if_True split_conv command_updated [OF True] option.case)
       (simp split: option.splits error.splits)
next
  case False
  then show ?thesis
    unfolding update_joystick_def Let_def read_axes setitems_four
    by (simp split: option.splits error.splits)
qed

lemma update_joystick_sent:
  "sent (fst (update_joystick env c a)) =
     (if 4 \<le> length (rc_controls a)
      then [(RightJoystickX c, RightJoystickY c, LeftJoystickY c, LeftJoystickX c)] else [])"
  by (simp add: update_joystick_effects sent_append takeoff_land_def
      split: option.splits error.splits)

section \<open>Runs of the dispatch loop\<close>

text \<open>
  The gamepad actions of a run are the monitor thread: with no tick between them, they
  leave the controller as \<^verbatim>\<open>_monitor_controller\<close> does.
\<close>

lemma ended_monitor_writes_nothing:
  "\<not> monitor_alive s \<Longrightarrow> controller (snd (run (map Gamepad batches) s)) = controller s"
proof (induction batches arbitrary: s)
  case Nil
  then show ?case by simp
next
  case (Cons b batches)
  then show ?case by (cases b) (simp_all add: split_beta)
qed

lemma monitor_thread_run:
  "monitor_alive s \<Longrightarrow>
   controller (snd (run (map Gamepad batches) s)) = monitor_controller batches (controller s)"
proof (induction batches arbitrary: s)
  case Nil
  then show ?case by simp
next
  case (Cons b batches)
  show ?case
  proof (cases b)
    case (Inl err)
    then show ?thesis
      using ended_monitor_writes_nothing [of "s\<lparr>monitor_alive := False\<rparr>" batches]
      by (simp add: split_beta)
  next
    case (Inr events)
    then show ?thesis
      using Cons.prems Cons.IH [of "s\<lparr>controller := fold handle_event events (controller s)\<rparr>"]
      by (simp add: split_beta)
  qed
qed

text \<open>
  \<^verbatim>\<open>read()\<close> takes the attributes one after another while the monitor thread may write,
  so the values of one tick can come from different moments. The bound below is kept by
  each stored value on its own, and a tick sends nothing but the four it has read.
\<close>

lemma setitems_length: "length (fst (setitems xs kvs)) = length xs"
  by (induction xs kvs rule: setitems.induct) simp_all

lemma update_joystick_app:
  "snd (update_joystick env c a) =
     a\<lparr>rc_controls := fst (setitems (rc_controls a)
        [(0, RightJoystickX c), (1, RightJoystickY c), (2, LeftJoystickY c), (3, LeftJoystickX c)])\<rparr>"
  unfolding update_joystick_def Let_def read_axes
  by (simp add: split_beta split: option.splits error.splits)

lemma update_joystick_rc_length:
  "length (rc_controls (snd (update_joystick env c a))) = length (rc_controls a)"
  by (simp only: update_joystick_app) (simp add: setitems_length)

lemma update_joystick_flying:
  "flying (snd (update_joystick env c a)) = flying a"
  by (simp only: update_joystick_app) simp

lemma step_axes_ok:
  "action_ok x \<Longrightarrow> axes_ok (controller s) \<Longrightarrow> axes_ok (controller (snd (step x s)))"
proof (induction x s rule: step.induct)
  case (3 env s)
  then show ?case by (simp add: split_beta)
qed (simp_all add: fold_handle_event_axes_ok)

lemma step_sent:
  "axes_ok (controller s) \<Longrightarrow> list_all within_100 (sent (fst (step x s)))"
proof (induction x s rule: step.induct)
  case (3 env s)
  then show ?case
    by (simp add: split_beta update_joystick_sent axes_ok_def)
qed simp_all

lemma run_sent:
  "list_all action_ok acts \<Longrightarrow> axes_ok (controller s) \<Longrightarrow>
   list_all within_100 (sent (fst (run acts s)))"
proof (induction acts arbitrary: s)
  case Nil
  then show ?case by simp
next
  case (Cons x xs)
  from Cons.prems have ok: "axes_ok (controller (snd (step x s)))"
    by (simp add: step_axes_ok)
  have "list_all within_100 (sent (fst (run xs (snd (step x s)))))"
    using Cons.IH [OF _ ok] Cons.prems by simp
  moreover have "list_all within_100 (sent (fst (step x s)))"
    using Cons.prems by (simp add: step_sent)
  ultimately show ?case
    by (simp add: split_beta sent_append)
qed

lemma axes_ok_init: "axes_ok XboxController_init"
  by (simp add: axes_ok_def XboxController_init_def within_100_def)

text \<open>
  Claim C1. In every run of the monitor thread and the dispatch loop from the initial
  state, whatever the order of gamepad batches and ticks, if every joystick reading lies
  in \<open>[- 2 ^ 15, 2 ^ 15]\<close> then all four components of every velocity command passed
  to \<^verbatim>\<open>send_rc_control\<close> lie in \<open>[- 100, 100]\<close>.
\<close>

theorem sent_commands_within_100:
  "list_all action_ok acts \<Longrightarrow> list_all within_100 (sent (fst (run acts system_init)))"
  by (rule run_sent) (simp_all add: system_init_def axes_ok_init)

theorem sent_commands_within_100_witness:
  "list_all action_ok
     [Gamepad (Inr [\<lparr>code = ''ABS_RX'', state = 16384\<rparr>, \<lparr>code = ''ABS_Y'', state = - 32768\<rparr>]),
      Tick \<lparr>is_flying = False, send_result = None\<rparr>]
   \<and> sent (fst (run
        [Gamepad (Inr [\<lparr>code = ''ABS_RX'', state = 16384\<rparr>, \<lparr>code = ''ABS_Y'', state = - 32768\<rparr>]),
         Tick \<lparr>is_flying = False, send_result = None\<rparr>] system_init)) = [(50, 0, - 100, 0)]
   \<and> list_all within_100 (sent (fst (run
        [Gamepad (Inr [\<lparr>code = ''ABS_RX'', state = 16384\<rparr>, \<lparr>code = ''ABS_Y'', state = - 32768\<rparr>]),
         Tick \<lparr>is_flying = False, send_result = None\<rparr>] system_init)))"
  using sent_commands_within_100 [of
     "[Gamepad (Inr [\<lparr>code = ''ABS_RX'', state = 16384\<rparr>, \<lparr>code = ''ABS_Y'', state = - 32768\<rparr>]),
       Tick \<lparr>is_flying = False, send_result = None\<rparr>]"]
  by (simp add: system_init_def XboxController_init_def App_init_def handle_event_def
      update_joystick_sent normalize_val_nonneg normalize_val_neg filter_noise_def split_beta
      event_ok_def joystick_axis_def)

lemma step_rc_length:
  "length (rc_controls (app (snd (step x s)))) = length (rc_controls (app s))"
  by (induction x s rule: step.induct) (simp_all add: split_beta update_joystick_rc_length)

lemma run_rc_length:
  "length (rc_controls (app (snd (run acts s)))) = length (rc_controls (app s))"
  by (induction acts arbitrary: s) (simp_all add: split_beta step_rc_length)

lemma reachable_rc_length:
  "length (rc_controls (app (snd (run acts system_init)))) = 4"
  by (simp only: run_rc_length) (simp add: system_init_def App_init_def)

lemma dispatches_append: "dispatches (xs @ ys) = dispatches xs @ dispatches ys"
  by (induction xs rule: dispatches.induct) simp_all

lemma update_joystick_dispatches:
  "dispatches (fst (update_joystick env c a)) = (if Back c \<noteq> 0 then takeoff_land env else [])"
  by (simp add: update_joystick_effects dispatches_append takeoff_land_def
      split: option.splits error.splits)

lemma unscheduled_ticks: "\<not> scheduled s \<Longrightarrow> fst (run (map Tick envs) s) = []"
  by (induction envs) (simp_all add: split_beta)

text \<open>
  Claim C4. In a reachable state whose four stored joystick values are zero, a dispatch
  tick makes exactly one call of \<^verbatim>\<open>send_rc_control\<close>, and it is the hover command
  \<open>(0, 0, 0, 0)\<close>: whatever the buttons are, whatever \<^verbatim>\<open>drone.is_flying\<close> is, and
  whether the call returns or raises.
\<close>

theorem hover_command_sent:
  assumes "s = snd (run acts system_init)" and "scheduled s"
    and "LeftJoystickX (controller s) = 0" and "LeftJoystickY (controller s) = 0"
    and "RightJoystickX (controller s) = 0" and "RightJoystickY (controller s) = 0"
  shows "sent (fst (step (Tick env) s)) = [(0, 0, 0, 0)]"
  using assms reachable_rc_length [of acts]
  by (simp add: split_beta update_joystick_sent)

theorem hover_command_sent_witness:
  "scheduled (snd (run [Gamepad (Inr [\<lparr>code = ''ABS_X'', state = 3000\<rparr>])] system_init))
   \<and> read (controller (snd (run [Gamepad (Inr [\<lparr>code = ''ABS_X'', state = 3000\<rparr>])] system_init)))
       = replicate 20 0
   \<and> fst (step (Tick \<lparr>is_flying = True, send_result = None\<rparr>)
        (snd (run [Gamepad (Inr [\<lparr>code = ''ABS_X'', state = 3000\<rparr>])] system_init)))
       = [Send_rc_control 0 0 0 0, After 50 Update_joystick]
   \<and> sent (fst (step (Tick \<lparr>is_flying = True, send_result = None\<rparr>)
        (snd (run [Gamepad (Inr [\<lparr>code = ''ABS_X'', state = 3000\<rparr>])] system_init))))
       = [(0, 0, 0, 0)]"
  using hover_command_sent [of "snd (run [Gamepad (Inr [\<lparr>code = ''ABS_X'', state = 3000\<rparr>])] system_init)"
      "[Gamepad (Inr [\<lparr>code = ''ABS_X'', state = 3000\<rparr>])]" "\<lparr>is_flying = True, send_result = None\<rparr>"]
  by (simp add: system_init_def XboxController_init_def App_init_def handle_event_def
      update_joystick_effects normalize_val_nonneg filter_noise_def split_beta read_def
      numeral_eq_Suc)

section \<open>Rescheduling and the mode toggle\<close>

lemma update_joystick_last:
  assumes "4 \<le> length (rc_controls a)"
  shows "last (fst (update_joystick env c a)) =
     (case send_result env of
        None \<Rightarrow> After 50 Update_joystick
      | Some (Exception m) \<Rightarrow> Print (joystick_message m))"
  using assms by (simp add: update_joystick_effects)

lemma update_joystick_rescheduled:
  assumes "4 \<le> length (rc_controls a)"
  shows "(After 50 Update_joystick \<in> set (fst (update_joystick env c a))) = (send_result env = None)"
  using assms
  by (auto simp: update_joystick_effects takeoff_land_def split: option.splits error.splits)

text \<open>
  Counterexample to claim C2 as stated. The first tick of the program, with a
  \<^verbatim>\<open>send_rc_control\<close> that raises: the trace holds no \<^verbatim>\<open>root.after\<close>, and the tick
  that would have come next never runs.
\<close>

theorem failed_send_not_rescheduled:
  "After 50 Update_joystick \<notin> set (fst (update_joystick
       \<lparr>is_flying = False, send_result = Some (Exception ''timeout'')\<rparr>
       XboxController_init App_init))
   \<and> fst (run [Tick \<lparr>is_flying = False, send_result = Some (Exception ''timeout'')\<rparr>,
              Tick \<lparr>is_flying = False, send_result = None\<rparr>] system_init)
       = [Send_rc_control 0 0 0 0, Print (joystick_message ''timeout'')]"
  by (simp add: update_joystick_effects system_init_def App_init_def XboxController_init_def
      split_beta)

text \<open>
  Claim C2, amended. In every reachable state, a dispatch tick whose send returns ends
  with \<^verbatim>\<open>root.after(50, self.update_joystick)\<close> and stays scheduled. A tick whose send
  raises catches the exception and prints it as its last effect, but does not schedule
  itself again: the dispatch loop has ended, and no later tick has any effect.
\<close>

theorem tick_reschedules_iff_send_returns:
  assumes "s = snd (run acts system_init)" and "scheduled s"
  shows "(send_result env = None \<longrightarrow>
            last (fst (step (Tick env) s)) = After 50 Update_joystick
            \<and> scheduled (snd (step (Tick env) s)))
       \<and> (send_result env = Some (Exception m) \<longrightarrow>
            last (fst (step (Tick env) s)) = Print (joystick_message m)
            \<and> After 50 Update_joystick \<notin> set (fst (step (Tick env) s))
            \<and> \<not> scheduled (snd (step (Tick env) s))
            \<and> fst (run (map Tick envs) (snd (step (Tick env) s))) = [])"
proof -
  have len: "4 \<le> length (rc_controls (app s))"
    using assms(1) reachable_rc_length [of acts] by simp
  have sch: "scheduled (snd (step (Tick env) s)) = (send_result env = None)"
    using assms(2) by (simp add: split_beta update_joystick_rescheduled [OF len])
  have fx: "fst (step (Tick env) s) = fst (update_joystick env (controller s) (app s))"
    using assms(2) by (simp add: split_beta)
  show ?thesis
    using sch unscheduled_ticks [of "snd (step (Tick env) s)" envs]
    by (simp only: fx update_joystick_last [OF len] update_joystick_rescheduled [OF len])
       (simp del: step.simps)
qed

theorem tick_reschedules_iff_send_returns_witness:
  "scheduled (snd (run [] system_init))
   \<and> fst (step (Tick \<lparr>is_flying = False, send_result = None\<rparr>) (snd (run [] system_init)))
       = [Send_rc_control 0 0 0 0, After 50 Update_joystick]
   \<and> scheduled (snd (step (Tick \<lparr>is_flying = False, send_result = None\<rparr>)
        (snd (run [] system_init))))
   \<and> last (fst (step (Tick \<lparr>is_flying = False, send_result = Some (Exception ''timeout'')\<rparr>)
        (snd (run [] system_init)))) = Print (joystick_message ''timeout'')
   \<and> \<not> scheduled (snd (step (Tick \<lparr>is_flying = False, send_result = Some (Exception ''timeout'')\<rparr>)
        (snd (run [] system_init))))
   \<and> fst (run (map Tick [\<lparr>is_flying = False, send_result = None\<rparr>])
        (snd (step (Tick \<lparr>is_flying = False, send_result = Some (Exception ''timeout'')\<rparr>)
          (snd (run [] system_init))))) = []"
  using tick_reschedules_iff_send_returns [of "snd (run [] system_init)" "[]"
      "\<lparr>is_flying = False, send_result = None\<rparr>" "''x''" "[]"]
    tick_reschedules_iff_send_returns [of "snd (run [] system_init)" "[]"
      "\<lparr>is_flying = False, send_result = Some (Exception ''timeout'')\<rparr>" "''timeout''"
      "[\<lparr>is_flying = False, send_result = None\<rparr>]"]
  by (simp add: system_init_def App_init_def XboxController_init_def split_beta
      update_joystick_effects)

text \<open>
  Counterexample to claim C3 as stated. From the initial (grounded) state the Back button
  goes to 1 once and stays there. The drone has not yet reported flying at the second
  tick. Two takeoff threads are started, and \<^verbatim>\<open>App.flying\<close> is still false after the
  first of them.
\<close>

theorem held_button_dispatches_again:
  "dispatches (fst (run
       [Gamepad (Inr [\<lparr>code = ''BTN_SELECT'', state = 1\<rparr>]),
        Tick \<lparr>is_flying = False, send_result = None\<rparr>,
        Tick \<lparr>is_flying = False, send_result = None\<rparr>] system_init))
     = [Thread_takeoff, Thread_takeoff]
   \<and> \<not> flying (app (snd (run
       [Gamepad (Inr [\<lparr>code = ''BTN_SELECT'', state = 1\<rparr>]),
        Tick \<lparr>is_flying = False, send_result = None\<rparr>] system_init)))"
  by (simp add: update_joystick_effects update_joystick_app system_init_def App_init_def
      XboxController_init_def handle_event_def split_beta takeoff_land_def)

text \<open>
  Claim C3, amended. A dispatch tick that reads a non-zero mode-toggle level makes exactly
  one dispatch, a takeoff when \<^verbatim>\<open>drone.is_flying\<close> is false and a landing when it is
  true, followed at once by the sleep of 0.15 seconds; a tick that reads level 0 makes
  none. The test is on the level read by the tick, and no tick changes \<^verbatim>\<open>App.flying\<close>.
\<close>

theorem level_triggered_dispatch:
  "dispatches (fst (update_joystick env c a)) =
      (if Back c = 0 then [] else if is_flying env then [Thread_land] else [Thread_takeoff])
   \<and> (Back c \<noteq> 0 \<longrightarrow>
        take 2 (fst (update_joystick env c a)) =
          [if is_flying env then Thread_land else Thread_takeoff, Sleep (15 / 100)])
   \<and> flying (snd (update_joystick env c a)) = flying a"
proof -
  have "Back c \<noteq> 0 \<longrightarrow>
        take 2 (fst (update_joystick env c a)) =
          [if is_flying env then Thread_land else Thread_takeoff, Sleep (15 / 100)]"
    by (simp add: update_joystick_effects takeoff_land_def)
  then show ?thesis
    by (simp add: update_joystick_dispatches update_joystick_flying takeoff_land_def)
qed

theorem level_triggered_dispatch_witness:
  "Back (XboxController_init\<lparr>Back := 1\<rparr>) \<noteq> 0
   \<and> dispatches (fst (update_joystick \<lparr>is_flying = False, send_result = None\<rparr>
        (XboxController_init\<lparr>Back := 1\<rparr>) App_init)) = [Thread_takeoff]
   \<and> take 2 (fst (update_joystick \<lparr>is_flying = False, send_result = None\<rparr>
        (XboxController_init\<lparr>Back := 1\<rparr>) App_init)) = [Thread_takeoff, Sleep (15 / 100)]
   \<and> \<not> flying (snd (update_joystick \<lparr>is_flying = False, send_result = None\<rparr>
        (XboxController_init\<lparr>Back := 1\<rparr>) App_init))"
  using level_triggered_dispatch [of "\<lparr>is_flying = False, send_result = None\<rparr>"
      "XboxController_init\<lparr>Back := 1\<rparr>" App_init]
  by (simp add: XboxController_init_def App_init_def)

text \<open>
  Claim C10. \<^verbatim>\<open>read()\<close> returns 20 values; index 14 is \<^verbatim>\<open>Back\<close> and index 15 is
  \<^verbatim>\<open>Start\<close>. The dispatches of a tick do not depend on \<^verbatim>\<open>Start\<close>: there is none
  when \<^verbatim>\<open>Back\<close> is 0 and the one of \<^verbatim>\<open>takeoff_land\<close> otherwise. A \<^verbatim>\<open>BTN_START\<close>
  event writes \<^verbatim>\<open>Start\<close> and leaves \<^verbatim>\<open>Back\<close> alone; \<^verbatim>\<open>BTN_SELECT\<close> writes
  \<^verbatim>\<open>Back\<close>.
\<close>

theorem takeoff_land_reads_back:
  "length (read c) = 20 \<and> read c ! 14 = Back c \<and> read c ! 15 = Start c
   \<and> dispatches (fst (update_joystick env (c\<lparr>Start := v\<rparr>) a))
       = dispatches (fst (update_joystick env c a))
   \<and> (Back c = 0 \<longrightarrow> dispatches (fst (update_joystick env c a)) = [])
   \<and> (Back c \<noteq> 0 \<longrightarrow> dispatches (fst (update_joystick env c a)) = takeoff_land env)
   \<and> Back (handle_event \<lparr>code = ''BTN_START'', state = v\<rparr> c) = Back c
   \<and> Start (handle_event \<lparr>code = ''BTN_START'', state = v\<rparr> c) = v
   \<and> Back (handle_event \<lparr>code = ''BTN_SELECT'', state = v\<rparr> c) = v"
  by (simp add: update_joystick_dispatches handle_event_def) (simp add: read_def)

theorem takeoff_land_reads_back_witness:
  "Back (handle_event \<lparr>code = ''BTN_START'', state = 1\<rparr> XboxController_init) = 0
   \<and> Start (handle_event \<lparr>code = ''BTN_START'', state = 1\<rparr> XboxController_init) = 1
   \<and> dispatches (fst (update_joystick \<lparr>is_flying = False, send_result = None\<rparr>
        (handle_event \<lparr>code = ''BTN_START'', state = 1\<rparr> XboxController_init) App_init)) = []
   \<and> Back (handle_event \<lparr>code = ''BTN_SELECT'', state = 1\<rparr> XboxController_init) \<noteq> 0
   \<and> dispatches (fst (update_joystick \<lparr>is_flying = False, send_result = None\<rparr>
        (handle_event \<lparr>code = ''BTN_SELECT'', state = 1\<rparr> XboxController_init) App_init))
       = [Thread_takeoff]"
  using takeoff_land_reads_back [of "handle_event \<lparr>code = ''BTN_START'', state = 1\<rparr> XboxController_init"
      "\<lparr>is_flying = False, send_result = None\<rparr>" 1 App_init]
    takeoff_land_reads_back [of XboxController_init
      "\<lparr>is_flying = False, send_result = None\<rparr>" 1 App_init]
    takeoff_land_reads_back [of "handle_event \<lparr>code = ''BTN_SELECT'', state = 1\<rparr> XboxController_init"
      "\<lparr>is_flying = False, send_result = None\<rparr>" 1 App_init]
  by (simp add: XboxController_init_def takeoff_land_def)

section \<open>The battery gauge and the triggers\<close>

lemma line_colours_append: "line_colours (xs @ ys) = line_colours xs @ line_colours ys"
  by (induction xs rule: line_colours.induct) simp_all

lemma decade:
  fixes p :: int
  assumes "10 * k \<le> p" and "p < 10 * k + 10"
  shows "p div 10 = k"
  using assms by linarith

lemma segments_by_band:
  "line_colours (draw_battery_indicator i) =
     (if battery i \<ge> 70 then
        replicate (if battery i = 100 then 10 else if 90 \<le> battery i \<and> battery i < 100 then 9
                   else if 80 \<le> battery i \<and> battery i < 90 then 8 else 7) green
      else if 40 \<le> battery i \<and> battery i < 70 then
        replicate (if battery i \<ge> 60 then 6 else if 50 \<le> battery i then 5 else 4) yellow
      else replicate (if battery i \<ge> 30 then 3 else if 20 \<le> battery i then 2 else 1) red)"
  unfolding draw_battery_indicator_def Let_def
  by (simp add: line_colours_append bar_def green_def yellow_def red_def eval_nat_numeral)

lemma bar_colours:
  assumes "0 \<le> battery i" and "battery i \<le> 100"
  shows "line_colours (draw_battery_indicator i) =
     replicate (nat (max 1 (battery i div 10)))
       (if battery i < 40 then red else if battery i \<le> 69 then yellow else green)"
proof -
  define p where "p = battery i"
  have r: "0 \<le> p" "p \<le> 100" using assms by (simp_all add: p_def)
  consider "p < 10" | "10 \<le> p" "p < 20" | "20 \<le> p" "p < 30" | "30 \<le> p" "p < 40"
    | "40 \<le> p" "p < 50" | "50 \<le> p" "p < 60" | "60 \<le> p" "p < 70" | "70 \<le> p" "p < 80"
    | "80 \<le> p" "p < 90" | "90 \<le> p" "p < 100" | "p = 100"
    using r by linarith
  then have "(if p \<ge> 70 then
        replicate (if p = 100 then 10 else if 90 \<le> p \<and> p < 100 then 9
                   else if 80 \<le> p \<and> p < 90 then 8 else 7) green
      else if 40 \<le> p \<and> p < 70 then
        replicate (if p \<ge> 60 then 6 else if 50 \<le> p then 5 else 4) yellow
      else replicate (if p \<ge> 30 then 3 else if 20 \<le> p then 2 else 1) red)
    = replicate (nat (max 1 (p div 10)))
       (if p < 40 then red else if p \<le> 69 then yellow else green)"
  proof cases
    case 1
    then have "p div 10 = 0" using r decade [of 0 p] by simp
    with 1 show ?thesis by simp
  next
    case 2
    then have "p div 10 = 1" using decade [of 1 p] by simp
    with 2 show ?thesis by simp
  next
    case 3
    then have "p div 10 = 2" using decade [of 2 p] by simp
    with 3 show ?thesis by simp
  next
    case 4
    then have "p div 10 = 3" using decade [of 3 p] by simp
    with 4 show ?thesis by simp
  next
    case 5
    then have "p div 10 = 4" using decade [of 4 p] by simp
    with 5 show ?thesis by simp
  next
    case 6
    then have "p div 10 = 5" using decade [of 5 p] by simp
    with 6 show ?thesis by simp
  next
    case 7
    then have "p div 10 = 6" using decade [of 6 p] by simp
    with 7 show ?thesis by simp
  next
    case 8
    then have "p div 10 = 7" using decade [of 7 p] by simp
    with 8 show ?thesis by simp
  next
    case 9
    then have "p div 10 = 8" using decade [of 8 p] by simp
    with 9 show ?thesis by simp
  next
    case 10
    then have "p div 10 = 9" using decade [of 9 p] by simp
    with 10 show ?thesis by simp
  next
    case 11
    then show ?thesis by simp
  qed
  then show ?thesis
    by (simp only: segments_by_band p_def)
qed

lemma upto_10: "[1..1::int] = [1]" "[1..2::int] = [1,2]" "[1..3::int] = [1,2,3]"
  "[1..4::int] = [1,2,3,4]" "[1..5::int] = [1,2,3,4,5]" "[1..6::int] = [1,2,3,4,5,6]"
  "[1..7::int] = [1,2,3,4,5,6,7]" "[1..8::int] = [1,2,3,4,5,6,7,8]"
  "[1..9::int] = [1,2,3,4,5,6,7,8,9]" "[1..10::int] = [1,2,3,4,5,6,7,8,9,10]"
  by (simp_all add: upto_rec1)

lemma gauge_drawn:
  assumes "0 \<le> battery i" and "battery i \<le> 100"
  shows "draw_battery_indicator i =
     [Rectangle (w i div 128 + 3, h i div 32 + 29) (w i div 128 + 52, h i div 32 + 51)
        (255, 255, 255) (- 1),
      Rectangle (w i div 128 + 52, h i div 32 + 35) (w i div 128 + 55, h i div 32 + 45)
        (255, 255, 255) (- 1)]
     @ map (\<lambda>k. Line (w i div 128 + 5 * k, h i div 32 + 30) (w i div 128 + 5 * k, h i div 32 + 50)
              (if battery i < 40 then (0, 0, 255)
               else if battery i \<le> 69 then (0, 255, 255) else (0, 255, 0)) 2)
         [1..max 1 (battery i div 10)]
     @ [PutText (str_int (battery i) @ '' %'') (w i div 128 + 60, h i div 32 + 45)
          FONT_HERSHEY_COMPLEX (1 / 2) (43, 157, 255) 1]"
proof -
  define p where "p = battery i"
  have r: "0 \<le> p" "p \<le> 100" using assms by (simp_all add: p_def)
  consider "p < 10" | "10 \<le> p" "p < 20" | "20 \<le> p" "p < 30" | "30 \<le> p" "p < 40"
    | "40 \<le> p" "p < 50" | "50 \<le> p" "p < 60" | "60 \<le> p" "p < 70" | "70 \<le> p" "p < 80"
    | "80 \<le> p" "p < 90" | "90 \<le> p" "p < 100" | "p = 100"
    using r by linarith
  then show ?thesis
  proof cases
    case 1
    then have "p div 10 = 0" using r decade [of 0 p] by simp
    with 1 show ?thesis unfolding p_def
      by (simp add: draw_battery_indicator_def Let_def bar_def upto_10)
  next
    case 2
    then have "p div 10 = 1" using decade [of 1 p] by simp
    with 2 show ?thesis unfolding p_def
      by (simp add: draw_battery_indicator_def Let_def bar_def upto_10)
  next
    case 3
    then have "p div 10 = 2" using decade [of 2 p] by simp
    with 3 show ?thesis unfolding p_def
      by (simp add: draw_battery_indicator_def Let_def bar_def upto_10)
  next
    case 4
    then have "p div 10 = 3" using decade [of 3 p] by simp
    with 4 show ?thesis unfolding p_def
      by (simp add: draw_battery_indicator_def Let_def bar_def upto_10)
  next
    case 5
    then have "p div 10 = 4" using decade [of 4 p] by simp
    with 5 show ?thesis unfolding p_def
      by (simp add: draw_battery_indicator_def Let_def bar_def upto_10)
  next
    case 6
    then have "p div 10 = 5" using decade [of 5 p] by simp
    with 6 show ?thesis unfolding p_def
      by (simp add: draw_battery_indicator_def Let_def bar_def upto_10)
  next
    case 7
    then have "p div 10 = 6" using decade [of 6 p] by simp
    with 7 show ?thesis unfolding p_def
      by (simp add: draw_battery_indicator_def Let_def bar_def upto_10)
  next
    case 8
    then have "p div 10 = 7" using decade [of 7 p] by simp
    with 8 show ?thesis unfolding p_def
      by (simp add: draw_battery_indicator_def Let_def bar_def upto_10)
  next
    case 9
    then have "p div 10 = 8" using decade [of 8 p] by simp
    with 9 show ?thesis unfolding p_def
      by (simp add: draw_battery_indicator_def Let_def bar_def upto_10)
  next
    case 10
    then have "p div 10 = 9" using decade [of 9 p] by simp
    with 10 show ?thesis unfolding p_def
      by (simp add: draw_battery_indicator_def Let_def bar_def upto_10)
  next
    case 11
    then show ?thesis unfolding p_def
      by (simp add: draw_battery_indicator_def Let_def bar_def upto_10)
  qed
qed

text \<open>
  Claim C6. For a battery percentage \<open>p\<close> between 0 and 100 the drawing is a function of
  \<open>p\<close> and the frame size: the two rectangles of the battery's body, then
  \<open>max 1 \<lfloor>p / 10\<rfloor>\<close> vertical bars, the \<open>k\<close>-th at horizontal offset \<open>5 * k\<close> inside the
  body, from offset 30 to offset 50 vertically, of thickness 2, all of one colour (red
  below 40, yellow from 40 to 69, green from 70), then the label. The colours are written
  as OpenCV reads them, (blue, green, red).
\<close>

theorem battery_segments:
  assumes "0 \<le> battery i" and "battery i \<le> 100"
  shows "draw_battery_indicator i =
     [Rectangle (w i div 128 + 3, h i div 32 + 29) (w i div 128 + 52, h i div 32 + 51)
        (255, 255, 255) (- 1),
      Rectangle (w i div 128 + 52, h i div 32 + 35) (w i div 128 + 55, h i div 32 + 45)
        (255, 255, 255) (- 1)]
     @ map (\<lambda>k. Line (w i div 128 + 5 * k, h i div 32 + 30) (w i div 128 + 5 * k, h i div 32 + 50)
              (if battery i < 40 then (0, 0, 255)
               else if battery i \<le> 69 then (0, 255, 255) else (0, 255, 0)) 2)
         [1..max 1 (battery i div 10)]
     @ [PutText (str_int (battery i) @ '' %'') (w i div 128 + 60, h i div 32 + 45)
          FONT_HERSHEY_COMPLEX (1 / 2) (43, 157, 255) 1]
   \<and> line_colours (draw_battery_indicator i) =
       replicate (nat (max 1 (battery i div 10)))
         (if battery i < 40 then (0, 0, 255)
          else if battery i \<le> 69 then (0, 255, 255) else (0, 255, 0))"
  using gauge_drawn [OF assms] bar_colours [OF assms]
  by (simp add: red_def yellow_def green_def)

theorem battery_segments_witness:
  "draw_battery_indicator \<lparr>update = True, w = 720, h = 480, battery = 25\<rparr> =
     [Rectangle (8, 44) (57, 66) (255, 255, 255) (- 1),
      Rectangle (57, 50) (60, 60) (255, 255, 255) (- 1),
      Line (10, 45) (10, 65) (0, 0, 255) 2,
      Line (15, 45) (15, 65) (0, 0, 255) 2,
      PutText ''25 %'' (65, 60) FONT_HERSHEY_COMPLEX (1 / 2) (43, 157, 255) 1]
   \<and> draw_battery_indicator \<lparr>update = True, w = 720, h = 480, battery = 5\<rparr> =
     [Rectangle (8, 44) (57, 66) (255, 255, 255) (- 1),
      Rectangle (57, 50) (60, 60) (255, 255, 255) (- 1),
      Line (10, 45) (10, 65) (0, 0, 255) 2,
      PutText ''5 %'' (65, 60) FONT_HERSHEY_COMPLEX (1 / 2) (43, 157, 255) 1]
   \<and> draw_battery_indicator \<lparr>update = True, w = 720, h = 480, battery = 55\<rparr> =
     [Rectangle (8, 44) (57, 66) (255, 255, 255) (- 1),
      Rectangle (57, 50) (60, 60) (255, 255, 255) (- 1),
      Line (10, 45) (10, 65) (0, 255, 255) 2,
      Line (15, 45) (15, 65) (0, 255, 255) 2,
      Line (20, 45) (20, 65) (0, 255, 255) 2,
      Line (25, 45) (25, 65) (0, 255, 255) 2,
      Line (30, 45) (30, 65) (0, 255, 255) 2,
      PutText ''55 %'' (65, 60) FONT_HERSHEY_COMPLEX (1 / 2) (43, 157, 255) 1]
   \<and> line_colours (draw_battery_indicator \<lparr>update = True, w = 720, h = 480, battery = 75\<rparr>)
     = [(0, 255, 0), (0, 255, 0), (0, 255, 0), (0, 255, 0), (0, 255, 0), (0, 255, 0), (0, 255, 0)]
   \<and> line_colours (draw_battery_indicator \<lparr>update = True, w = 720, h = 480, battery = 100\<rparr>)
     = [(0, 255, 0), (0, 255, 0), (0, 255, 0), (0, 255, 0), (0, 255, 0),
        (0, 255, 0), (0, 255, 0), (0, 255, 0), (0, 255, 0), (0, 255, 0)]"
  using battery_segments [of "\<lparr>update = True, w = 720, h = 480, battery = 25\<rparr>"]
    battery_segments [of "\<lparr>update = True, w = 720, h = 480, battery = 5\<rparr>"]
    battery_segments [of "\<lparr>update = True, w = 720, h = 480, battery = 55\<rparr>"]
    battery_segments [of "\<lparr>update = True, w = 720, h = 480, battery = 75\<rparr>"]
    battery_segments [of "\<lparr>update = True, w = 720, h = 480, battery = 100\<rparr>"]
  by (simp add: upto_10 str_int_def)

text \<open>
  Claim C8, evaluated on the code. A trigger event is normalised by the joystick maximum
  \<open>2 ^ 15\<close>: a trigger reading of \<open>2 ^ 8\<close> normalises to 0 and is stored as 0, where
  scaling against \<^verbatim>\<open>MAX_TRIG_VAL\<close> would give 100.
\<close>

theorem trigger_full_scale_stored_as_zero:
  "LeftTrigger (handle_event \<lparr>code = ''ABS_Z'', state = 2 ^ 8\<rparr> XboxController_init) = 0
   \<and> RightTrigger (handle_event \<lparr>code = ''ABS_RZ'', state = 2 ^ 8\<rparr> XboxController_init) = 0
   \<and> normalize_val (2 ^ 8) = 0
   \<and> py_int ((of_int (2 ^ 8) / MAX_TRIG_VAL) * 100) = 100"
  by (simp add: handle_event_def XboxController_init_def normalize_val_nonneg filter_noise_def
      py_int_def MAX_TRIG_VAL_def)

section \<open>Telemetry polling and teardown\<close>

lemma while_update_failed_read:
  assumes "update i"
  shows "while_update (map (\<lambda>b. (Inr b, False)) bs @ (Inl err, stop) # polls) i =
     (concat (map (\<lambda>b. [Print ''self.drone is true, updating indicators'', Get_battery,
                          Print (''self.battery = '' @ str_int b), Sleep 1]) bs)
        @ [Print ''self.drone is true, updating indicators'', Get_battery],
      i\<lparr>battery := last (battery i # bs)\<rparr>, Died err)"
  using assms
proof (induction bs arbitrary: i)
  case Nil
  then show ?case by simp
next
  case (Cons b bs)
  have "update (i\<lparr>battery := b\<rparr>)" using Cons.prems by simp
  from Cons.IH [OF this] Cons.prems show ?case
    by (simp add: Let_def)
qed

lemma count_polls:
  "count_list (concat (map (\<lambda>b. [Print s, Get_battery, Print (t b), Sleep 1]) bs)
     @ [Print s, Get_battery]) Get_battery = Suc (length bs)"
  by (induction bs) simp_all

lemma draw_battery_indicator_update:
  "draw_battery_indicator (i\<lparr>update := u, battery := b\<rparr>)
     = draw_battery_indicator (i\<lparr>battery := b\<rparr>)"
  by (simp add: draw_battery_indicator_def Let_def bar_def)

text \<open>
  Counterexample to claim C5 as stated. One successful poll, then a read that raises,
  then a read that would succeed: the second read ends the thread, the third is never
  made, and nothing is printed for the failure.
\<close>

theorem failed_read_ends_polling:
  "update_indicators
       [(Inr 80, False), (Inl (Exception ''timeout''), False), (Inr 50, False)]
       \<lparr>update = False, w = 720, h = 480, battery = 90\<rparr>
     = ([Print ''self.drone is true, updating indicators'', Get_battery,
         Print ''self.battery = 80'', Sleep 1,
         Print ''self.drone is true, updating indicators'', Get_battery],
        \<lparr>update = True, w = 720, h = 480, battery = 80\<rparr>, Died (Exception ''timeout''))"
  by (simp add: update_indicators_def str_int_def)

text \<open>
  Claim C5, amended. When a battery read raises after any number of successful polls,
  the stored battery is the last value read (the value of \<^verbatim>\<open>__init__\<close> when there was
  none), the polling thread ends with that exception after exactly one more
  \<^verbatim>\<open>get_battery\<close> call than there were successes, and \<^verbatim>\<open>video_stream\<close> still draws
  the gauge from the stored value and schedules itself again.
\<close>

theorem failed_read_keeps_battery:
  "update_indicators (map (\<lambda>b. (Inr b, False)) bs @ (Inl err, stop) # polls) i = (fx, j, st)
   \<Longrightarrow> st = Died err
     \<and> j = i\<lparr>update := True, battery := last (battery i # bs)\<rparr>
     \<and> count_list fx Get_battery = Suc (length bs)
     \<and> video_stream None None j =
         [Draw (draw_battery_indicator (i\<lparr>battery := last (battery i # bs)\<rparr>)),
          After 5 Video_stream]"
proof -
  assume run: "update_indicators (map (\<lambda>b. (Inr b, False)) bs @ (Inl err, stop) # polls) i
      = (fx, j, st)"
  have u: "update (i\<lparr>update := True\<rparr>)" by simp
  note eq = run [unfolded update_indicators_def while_update_failed_read [OF u]]
  from eq have st: "st = Died err" by simp
  from eq have j: "j = i\<lparr>update := True, battery := last (battery i # bs)\<rparr>" by auto
  from eq have "fx = concat (map (\<lambda>b. [Print ''self.drone is true, updating indicators'',
        Get_battery, Print (''self.battery = '' @ str_int b), Sleep 1]) bs)
        @ [Print ''self.drone is true, updating indicators'', Get_battery]" by simp
  then have c: "count_list fx Get_battery = Suc (length bs)"
    by (simp only: count_polls)
  have "draw_battery_indicator j = draw_battery_indicator (i\<lparr>battery := last (battery i # bs)\<rparr>)"
    unfolding j by (rule draw_battery_indicator_update)
  then have v: "video_stream None None j =
         [Draw (draw_battery_indicator (i\<lparr>battery := last (battery i # bs)\<rparr>)),
          After 5 Video_stream]"
    by (simp add: video_stream_def)
  from st j c v show ?thesis by simp
qed

theorem failed_read_keeps_battery_witness:
  "update_indicators (map (\<lambda>b. (Inr b, False)) [80] @ (Inl (Exception ''timeout''), False) # [(Inr 50, False)])
       \<lparr>update = False, w = 720, h = 480, battery = 90\<rparr>
     = ([Print ''self.drone is true, updating indicators'', Get_battery,
         Print ''self.battery = 80'', Sleep 1,
         Print ''self.drone is true, updating indicators'', Get_battery],
        \<lparr>update = True, w = 720, h = 480, battery = 80\<rparr>, Died (Exception ''timeout''))
   \<and> line_colours (draw_battery_indicator \<lparr>update = True, w = 720, h = 480, battery = 80\<rparr>)
       = replicate 8 green
   \<and> video_stream None None \<lparr>update = True, w = 720, h = 480, battery = 80\<rparr> =
         [Draw (draw_battery_indicator \<lparr>update = False, w = 720, h = 480, battery = 80\<rparr>),
          After 5 Video_stream]"
proof -
  have run: "update_indicators (map (\<lambda>b. (Inr b, False)) [80] @ (Inl (Exception ''timeout''), False) # [(Inr 50, False)])
       \<lparr>update = False, w = 720, h = 480, battery = 90\<rparr>
     = ([Print ''self.drone is true, updating indicators'', Get_battery,
         Print ''self.battery = 80'', Sleep 1,
         Print ''self.drone is true, updating indicators'', Get_battery],
        \<lparr>update = True, w = 720, h = 480, battery = 80\<rparr>, Died (Exception ''timeout''))"
    by (simp add: update_indicators_def str_int_def)
  have seg: "line_colours (draw_battery_indicator \<lparr>update = True, w = 720, h = 480, battery = 80\<rparr>)
       = replicate 8 green"
    by (simp add: segments_by_band)
  from failed_read_keeps_battery [OF run] run seg show ?thesis by simp
qed

lemma cleanup_trace:
  "fst (cleanup env i) =
     Print ''Cleaning up resources...'' # Drone_end #
       (case end_result env of
          Some (Exception m) \<Rightarrow> [Print (''Error performing cleanup: '' @ m)]
        | None \<Rightarrow>
            (case quit_result env of
               Some (Exception m) \<Rightarrow> [Root_quit, Print (''Error performing cleanup: '' @ m)]
             | None \<Rightarrow> [Root_quit, Exit]))"
  by (simp add: cleanup_def Let_def split: option.splits error.splits)

lemma cleanup_indicators: "fst (snd (cleanup env i)) = i\<lparr>update := False\<rparr>"
  by (simp add: cleanup_def Let_def split: option.splits error.splits)

lemma cleanup_outcome:
  "snd (snd (cleanup env i)) =
     (if end_result env = None \<and> quit_result env = None then SystemExit else Returned)"
  by (simp add: cleanup_def Let_def split: option.splits error.splits)

lemma run_app_split:
  "run_app env c a i =
     (before_cleanup env c a i @ fst (cleanup (teardown env) i),
      fst (snd (cleanup (teardown env) i)), snd (snd (cleanup (teardown env) i)))"
  by (simp add: run_app_def before_cleanup_def Let_def split_beta
      split: option.splits error.splits)

lemma before_cleanup_no_start:
  "x \<in> set (before_cleanup env c a i) \<Longrightarrow> x \<noteq> Print ''Cleaning up resources...''"
  by (auto simp: before_cleanup_def video_stream_def video_message_def joystick_message_def
      update_joystick_effects takeoff_land_def split: option.splits error.splits if_splits)

lemma stopped_loop: "\<not> update i \<Longrightarrow> while_update polls i = ([], i, Finished)"
  by (cases polls) auto

text \<open>
  Claim C9. Whatever a collaborator raises during teardown, in every run of the program:
  the error is the last thing printed; \<^verbatim>\<open>indicators.update\<close> is false afterwards, so the
  polling loop makes no further poll and finishes; the main loop, if it was entered at
  all, ended before the first statement of \<^verbatim>\<open>cleanup\<close> and is not entered again; and the
  main thread leaves \<^verbatim>\<open>run_app\<close>, the script's last statement, by returning. The calls
  \<^verbatim>\<open>root.quit()\<close> and \<^verbatim>\<open>exit()\<close> that follow the raising call are not made; without an
  error the main thread ends with the SystemExit of \<^verbatim>\<open>exit()\<close>. The monitor thread is a
  daemon and the polling thread is the program's only other looping thread, so the
  process ends in each case.
\<close>

theorem teardown_completes:
  assumes "run_app env c a i = (fx, i1, out)"
  shows "(end_result (teardown env) = Some (Exception m) \<longrightarrow>
            last fx = Print (''Error performing cleanup: '' @ m)
            \<and> Root_quit \<notin> set fx \<and> Exit \<notin> set fx \<and> out = Returned)
       \<and> (end_result (teardown env) = None \<and> quit_result (teardown env) = Some (Exception m) \<longrightarrow>
            last fx = Print (''Error performing cleanup: '' @ m)
            \<and> Exit \<notin> set fx \<and> out = Returned)
       \<and> (end_result (teardown env) = None \<and> quit_result (teardown env) = None \<longrightarrow>
            last fx = Exit \<and> out = SystemExit)
       \<and> \<not> update i1
       \<and> while_update polls i1 = ([], i1, Finished)
       \<and> fx = takeWhile (\<lambda>x. x \<noteq> Print ''Cleaning up resources...'') fx
               @ fst (cleanup (teardown env) i)
       \<and> Mainloop \<notin> set (fst (cleanup (teardown env) i))
       \<and> (pack_result env = None \<longrightarrow>
            Mainloop \<in> set (takeWhile (\<lambda>x. x \<noteq> Print ''Cleaning up resources...'') fx))"
proof -
  let ?pre = "before_cleanup env c a i"
  let ?cl = "fst (cleanup (teardown env) i)"
  let ?P = "\<lambda>x. x \<noteq> Print ''Cleaning up resources...''"
  from assms have fx: "fx = ?pre @ ?cl"
    and i1: "i1 = i\<lparr>update := False\<rparr>"
    and out: "out = (if end_result (teardown env) = None \<and> quit_result (teardown env) = None
                     then SystemExit else Returned)"
    by (simp_all add: run_app_split cleanup_indicators cleanup_outcome)
  have tw: "takeWhile ?P fx = ?pre"
    unfolding fx using before_cleanup_no_start [of _ env c a i]
    by (simp add: takeWhile_append2 cleanup_trace)
  have split: "fx = takeWhile ?P fx @ ?cl"
    by (simp only: tw) (rule fx)
  have noloop: "Mainloop \<notin> set ?cl"
    by (simp add: cleanup_trace split: option.splits error.splits)
  have pre_quiet: "Root_quit \<notin> set ?pre \<and> Exit \<notin> set ?pre"
    by (auto simp: before_cleanup_def video_stream_def update_joystick_effects takeoff_land_def
        split: option.splits error.splits if_splits)
  have entered: "pack_result env = None \<longrightarrow> Mainloop \<in> set ?pre"
    by (simp add: before_cleanup_def)
  have stop: "\<not> update i1" by (simp add: i1)
  have a1: "end_result (teardown env) = Some (Exception m) \<longrightarrow>
            last fx = Print (''Error performing cleanup: '' @ m)
            \<and> Root_quit \<notin> set fx \<and> Exit \<notin> set fx \<and> out = Returned"
    using pre_quiet by (simp add: fx out cleanup_trace)
  have a2: "end_result (teardown env) = None \<and> quit_result (teardown env) = Some (Exception m) \<longrightarrow>
            last fx = Print (''Error performing cleanup: '' @ m)
            \<and> Exit \<notin> set fx \<and> out = Returned"
    using pre_quiet by (simp add: fx out cleanup_trace)
  have a3: "end_result (teardown env) = None \<and> quit_result (teardown env) = None \<longrightarrow>
            last fx = Exit \<and> out = SystemExit"
    by (simp add: fx out cleanup_trace)
  have entered_before: "pack_result env = None \<longrightarrow> Mainloop \<in> set (takeWhile ?P fx)"
    using entered by (simp only: tw)
  from a1 a2 a3 stop stopped_loop [OF stop, of polls] split noloop entered_before
  show ?thesis by blast
qed

theorem teardown_completes_witness:
  "run_app \<lparr>pack_result = None, first_frame = None, first_display = None,
       first_tick = \<lparr>is_flying = False, send_result = None\<rparr>, mainloop_result = None,
       teardown = \<lparr>end_result = Some (Exception ''disconnected''), quit_result = None\<rparr>\<rparr>
     XboxController_init App_init \<lparr>update = True, w = 720, h = 480, battery = 80\<rparr>
   = ([Pack, Draw (draw_battery_indicator \<lparr>update = True, w = 720, h = 480, battery = 80\<rparr>),
       After 5 Video_stream, Send_rc_control 0 0 0 0, After 50 Update_joystick, Mainloop,
       Print ''Cleaning up resources...'', Drone_end,
       Print ''Error performing cleanup: disconnected''],
      \<lparr>update = False, w = 720, h = 480, battery = 80\<rparr>, Returned)
   \<and> while_update [(Inr 50, False)] \<lparr>update = False, w = 720, h = 480, battery = 80\<rparr>
       = ([], \<lparr>update = False, w = 720, h = 480, battery = 80\<rparr>, Finished)
   \<and> takeWhile (\<lambda>x. x \<noteq> Print ''Cleaning up resources...'')
        [Pack, Draw (draw_battery_indicator \<lparr>update = True, w = 720, h = 480, battery = 80\<rparr>),
         After 5 Video_stream, Send_rc_control 0 0 0 0, After 50 Update_joystick, Mainloop,
         Print ''Cleaning up resources...'', Drone_end,
         Print ''Error performing cleanup: disconnected'']
       = [Pack, Draw (draw_battery_indicator \<lparr>update = True, w = 720, h = 480, battery = 80\<rparr>),
          After 5 Video_stream, Send_rc_control 0 0 0 0, After 50 Update_joystick, Mainloop]"
proof -
  have r: "run_app \<lparr>pack_result = None, first_frame = None, first_display = None,
       first_tick = \<lparr>is_flying = False, send_result = None\<rparr>, mainloop_result = None,
       teardown = \<lparr>end_result = Some (Exception ''disconnected''), quit_result = None\<rparr>\<rparr>
     XboxController_init App_init \<lparr>update = True, w = 720, h = 480, battery = 80\<rparr>
   = ([Pack, Draw (draw_battery_indicator \<lparr>update = True, w = 720, h = 480, battery = 80\<rparr>),
       After 5 Video_stream, Send_rc_control 0 0 0 0, After 50 Update_joystick, Mainloop,
       Print ''Cleaning up resources...'', Drone_end,
       Print ''Error performing cleanup: disconnected''],
      \<lparr>update = False, w = 720, h = 480, battery = 80\<rparr>, Returned)"
    by (simp add: run_app_split before_cleanup_def video_stream_def update_joystick_effects
        cleanup_def XboxController_init_def App_init_def)
  from teardown_completes [OF r, of "''disconnected''" "[(Inr 50, False)]"] r
  show ?thesis by (simp add: cleanup_def)
qed

end
